theory Spec2Isabelle
  imports Main
begin

section \<open>The collaborators of the adapter\<close>

text \<open>
  The adapter (package \<open>scs_gin_adapter\<close>) sequences calls into two libraries: the SCS
  session manager and the Gin framework. Neither is part of the package, so both are
  parameters of the development. What the adapter itself does with them is translated
  from \<open>scs_gin_adapter.go\<close>.
\<close>

subsection \<open>Values of the standard library\<close>

text \<open>
  \<open>time.Time\<close> is an instant; \<open>time.Time{}\<close>, its zero value, is \<open>Time_zero\<close>.
  An \<open>error\<close> is \<open>nil\<close> (\<open>None\<close>) or carries a message.
\<close>

type_synonym Time = int

definition Time_zero :: Time where
  "Time_zero = 0"

datatype error = Error string

text \<open>
  An \<open>*http.Request\<close>: the cookies it carries (name and value, in header order) and its
  \<open>context.Context\<close>, of an arbitrary type \<open>'c\<close>.
\<close>

record 'c http_Request =
  Cookies :: "(string \<times> string) list"
  Context :: 'c

text \<open>
  \<open>req.Cookie(name)\<close> returns the first cookie of that name, or \<open>ErrNoCookie\<close>
  (\<open>None\<close>) when there is none or the name is empty.
\<close>

definition Cookie :: "'c http_Request \<Rightarrow> string \<Rightarrow> string option" where
  "Cookie req name = (if name = [] then None else map_of (Cookies req) name)"

text \<open>\<open>req.WithContext(ctx)\<close>: a copy of the request that carries \<open>ctx\<close>.\<close>

definition WithContext :: "'c http_Request \<Rightarrow> 'c \<Rightarrow> 'c http_Request" where
  "WithContext req ctx = req\<lparr>Context := ctx\<rparr>"

text \<open>
  The response writer: the header entries in the order they were added (a header name
  may occur several times, as \<open>Set-Cookie\<close> does), the status and the body.
  \<open>Header().Add(key, value)\<close> appends an entry.
\<close>

record ResponseWriter =
  Header :: "(string \<times> string) list"
  Status :: nat
  Body :: string

definition Header_Add :: "string \<Rightarrow> string \<Rightarrow> ResponseWriter \<Rightarrow> ResponseWriter" where
  "Header_Add key v rw = rw\<lparr>Header := Header rw @ [(key, v)]\<rparr>"

definition Header_Values :: "ResponseWriter \<Rightarrow> string \<Rightarrow> string list" where
  "Header_Values rw key = map snd (filter (\<lambda>p. fst p = key) (Header rw))"

subsection \<open>The session manager\<close>

text \<open>
  \<open>*scs.SessionManager\<close>, as far as the adapter uses it. The session data and the store
  behind it are a state of type \<open>'w\<close> that every operation may read and change; session
  values (\<open>interface{}\<close>) have type \<open>'v\<close>. Only \<open>ErrorFunc\<close> and \<open>WriteSessionCookie\<close> are
  handed the response writer, so only they can change it. \<open>Load\<close> returns a context and
  an error, \<open>Commit\<close> a token, an expiry and an error. The operations are total here: a
  session manager that panics on a context without session data, as SCS does when
  \<open>LoadAndSave\<close> has not run, is outside the model.
\<close>

record ('c, 'v, 'w) SessionManager =
  scs_Cookie_Name :: string
  scs_ErrorFunc :: "ResponseWriter \<Rightarrow> 'c http_Request \<Rightarrow> error \<Rightarrow> 'w \<Rightarrow> ResponseWriter \<times> 'w"
  scs_Load :: "'c \<Rightarrow> string \<Rightarrow> 'w \<Rightarrow> ('c \<times> error option) \<times> 'w"
  scs_Commit :: "'c \<Rightarrow> 'w \<Rightarrow> (string \<times> Time \<times> error option) \<times> 'w"
  scs_Put :: "'c \<Rightarrow> string \<Rightarrow> 'v \<Rightarrow> 'w \<Rightarrow> 'w"
  scs_Get :: "'c \<Rightarrow> string \<Rightarrow> 'w \<Rightarrow> 'v \<times> 'w"
  scs_GetString :: "'c \<Rightarrow> string \<Rightarrow> 'w \<Rightarrow> string \<times> 'w"
  scs_Remove :: "'c \<Rightarrow> string \<Rightarrow> 'w \<Rightarrow> 'w"
  scs_Destroy :: "'c \<Rightarrow> 'w \<Rightarrow> error option \<times> 'w"
  scs_RenewToken :: "'c \<Rightarrow> 'w \<Rightarrow> error option \<times> 'w"
  scs_RememberMe :: "'c \<Rightarrow> bool \<Rightarrow> 'w \<Rightarrow> 'w"
  scs_WriteSessionCookie ::
    "'c \<Rightarrow> ResponseWriter \<Rightarrow> string \<Rightarrow> Time \<Rightarrow> 'w \<Rightarrow> ResponseWriter \<times> 'w"

subsection \<open>The state of one request\<close>

text \<open>
  Every call the adapter makes into the session manager is recorded with its arguments
  and with what it returned, and so is the call of \<open>Next\<close>.
\<close>

datatype ('c, 'v) call =
    Call_Load 'c string 'c "error option"
  | Call_ErrorFunc ResponseWriter "'c http_Request" error
  | Call_Next
  | Call_Put 'c string 'v
  | Call_Get 'c string 'v
  | Call_GetString 'c string string
  | Call_Remove 'c string
  | Call_Destroy 'c "error option"
  | Call_RenewToken 'c "error option"
  | Call_RememberMe 'c bool
  | Call_Commit 'c string Time "error option"
  | Call_WriteSessionCookie 'c ResponseWriter string Time

text \<open>
  \<open>Request\<close> and \<open>Writer\<close> are the two fields of \<open>*gin.Context\<close> that the adapter
  touches; \<open>world\<close> is the state of the session manager; \<open>calls\<close> is the record of calls,
  oldest first.
\<close>

record ('c, 'v, 'w) state =
  Request :: "'c http_Request"
  Writer :: ResponseWriter
  world :: 'w
  calls :: "('c, 'v) call list"

definition call_Load ::
  "('c, 'v, 'w) SessionManager \<Rightarrow> 'c \<Rightarrow> string \<Rightarrow> ('c, 'v, 'w) state
     \<Rightarrow> ('c \<times> error option) \<times> ('c, 'v, 'w) state" where
  "call_Load m ctx token s =
     (let ((ctx', err), w) = scs_Load m ctx token (world s)
      in ((ctx', err), s\<lparr>world := w, calls := calls s @ [Call_Load ctx token ctx' err]\<rparr>))"

definition call_ErrorFunc ::
  "('c, 'v, 'w) SessionManager \<Rightarrow> 'c http_Request \<Rightarrow> error \<Rightarrow> ('c, 'v, 'w) state
     \<Rightarrow> ('c, 'v, 'w) state" where
  "call_ErrorFunc m req err s =
     (let (rw, w) = scs_ErrorFunc m (Writer s) req err (world s)
      in s\<lparr>Writer := rw, world := w,
            calls := calls s @ [Call_ErrorFunc (Writer s) req err]\<rparr>)"

definition call_Next ::
  "(('c, 'v, 'w) state \<Rightarrow> ('c, 'v, 'w) state) \<Rightarrow> ('c, 'v, 'w) state \<Rightarrow> ('c, 'v, 'w) state" where
  "call_Next next s = next (s\<lparr>calls := calls s @ [Call_Next]\<rparr>)"

definition call_Put ::
  "('c, 'v, 'w) SessionManager \<Rightarrow> 'c \<Rightarrow> string \<Rightarrow> 'v \<Rightarrow> ('c, 'v, 'w) state
     \<Rightarrow> ('c, 'v, 'w) state" where
  "call_Put m ctx key val s =
     s\<lparr>world := scs_Put m ctx key val (world s), calls := calls s @ [Call_Put ctx key val]\<rparr>"

definition call_Get ::
  "('c, 'v, 'w) SessionManager \<Rightarrow> 'c \<Rightarrow> string \<Rightarrow> ('c, 'v, 'w) state
     \<Rightarrow> 'v \<times> ('c, 'v, 'w) state" where
  "call_Get m ctx key s =
     (let (val, w) = scs_Get m ctx key (world s)
      in (val, s\<lparr>world := w, calls := calls s @ [Call_Get ctx key val]\<rparr>))"

definition call_GetString ::
  "('c, 'v, 'w) SessionManager \<Rightarrow> 'c \<Rightarrow> string \<Rightarrow> ('c, 'v, 'w) state
     \<Rightarrow> string \<times> ('c, 'v, 'w) state" where
  "call_GetString m ctx key s =
     (let (val, w) = scs_GetString m ctx key (world s)
      in (val, s\<lparr>world := w, calls := calls s @ [Call_GetString ctx key val]\<rparr>))"

definition call_Remove ::
  "('c, 'v, 'w) SessionManager \<Rightarrow> 'c \<Rightarrow> string \<Rightarrow> ('c, 'v, 'w) state
     \<Rightarrow> ('c, 'v, 'w) state" where
  "call_Remove m ctx key s =
     s\<lparr>world := scs_Remove m ctx key (world s), calls := calls s @ [Call_Remove ctx key]\<rparr>"

definition call_Destroy ::
  "('c, 'v, 'w) SessionManager \<Rightarrow> 'c \<Rightarrow> ('c, 'v, 'w) state
     \<Rightarrow> error option \<times> ('c, 'v, 'w) state" where
  "call_Destroy m ctx s =
     (let (err, w) = scs_Destroy m ctx (world s)
      in (err, s\<lparr>world := w, calls := calls s @ [Call_Destroy ctx err]\<rparr>))"

definition call_RenewToken ::
  "('c, 'v, 'w) SessionManager \<Rightarrow> 'c \<Rightarrow> ('c, 'v, 'w) state
     \<Rightarrow> error option \<times> ('c, 'v, 'w) state" where
  "call_RenewToken m ctx s =
     (let (err, w) = scs_RenewToken m ctx (world s)
      in (err, s\<lparr>world := w, calls := calls s @ [Call_RenewToken ctx err]\<rparr>))"

definition call_RememberMe ::
  "('c, 'v, 'w) SessionManager \<Rightarrow> 'c \<Rightarrow> bool \<Rightarrow> ('c, 'v, 'w) state
     \<Rightarrow> ('c, 'v, 'w) state" where
  "call_RememberMe m ctx val s =
     s\<lparr>world := scs_RememberMe m ctx val (world s),
       calls := calls s @ [Call_RememberMe ctx val]\<rparr>"

definition call_Commit ::
  "('c, 'v, 'w) SessionManager \<Rightarrow> 'c \<Rightarrow> ('c, 'v, 'w) state
     \<Rightarrow> (string \<times> Time \<times> error option) \<times> ('c, 'v, 'w) state" where
  "call_Commit m ctx s =
     (let ((tok, exp, err), w) = scs_Commit m ctx (world s)
      in ((tok, exp, err), s\<lparr>world := w, calls := calls s @ [Call_Commit ctx tok exp err]\<rparr>))"

definition call_WriteSessionCookie ::
  "('c, 'v, 'w) SessionManager \<Rightarrow> 'c \<Rightarrow> string \<Rightarrow> Time \<Rightarrow> ('c, 'v, 'w) state
     \<Rightarrow> ('c, 'v, 'w) state" where
  "call_WriteSessionCookie m ctx token expiry s =
     (let (rw, w) = scs_WriteSessionCookie m ctx (Writer s) token expiry (world s)
      in s\<lparr>Writer := rw, world := w,
            calls := calls s @ [Call_WriteSessionCookie ctx (Writer s) token expiry]\<rparr>)"

section \<open>The adapter\<close>

text \<open>\<open>GinAdapter\<close> holds the session manager; \<open>New\<close> wraps one.\<close>

record ('c, 'v, 'w) GinAdapter =
  sm :: "('c, 'v, 'w) SessionManager"

definition New :: "('c, 'v, 'w) SessionManager \<Rightarrow> ('c, 'v, 'w) GinAdapter" where
  "New s = \<lparr>sm = s\<rparr>"

text \<open>
  \<open>LoadAndSave\<close>, the middleware. \<open>next\<close> is the rest of the handler chain, which
  \<open>ginCtx.Next()\<close> runs on the request as the middleware has left it. The source's
  \<open>respWriter\<close> is the writer object of \<open>ginCtx\<close> itself, so the error handler and
  \<open>Header().Add\<close> act on the \<open>Writer\<close> field.
\<close>

definition LoadAndSave ::
  "('c, 'v, 'w) GinAdapter \<Rightarrow> (('c, 'v, 'w) state \<Rightarrow> ('c, 'v, 'w) state)
     \<Rightarrow> ('c, 'v, 'w) state \<Rightarrow> ('c, 'v, 'w) state" where
  "LoadAndSave ga next ginCtx =
     (let req = Request ginCtx;
          token = (case Cookie req (scs_Cookie_Name (sm ga)) of
                     Some v \<Rightarrow> v
                   | None \<Rightarrow> []);
          ((ctx, err), s1) = call_Load (sm ga) (Context req) token ginCtx
      in case err of
           Some e \<Rightarrow> call_ErrorFunc (sm ga) req e s1
         | None \<Rightarrow>
             (let sessionReq = WithContext req ctx;
                  s2 = s1\<lparr>Writer := Header_Add ''Vary'' ''Cookie'' (Writer s1)\<rparr>;
                  s3 = s2\<lparr>Request := sessionReq\<rparr>
              in call_Next next s3))"

text \<open>
  The accessors. Their argument \<open>ctx\<close> is the \<open>*gin.Context\<close>; \<open>ctx.Request.Context()\<close> is
  read anew at each call, as in the source, and the error that \<open>Commit\<close> returns is
  bound to \<open>_\<close>.
\<close>

definition Put ::
  "('c, 'v, 'w) GinAdapter \<Rightarrow> string \<Rightarrow> 'v \<Rightarrow> ('c, 'v, 'w) state \<Rightarrow> ('c, 'v, 'w) state" where
  "Put ga key val ctx =
     (let s1 = call_Put (sm ga) (Context (Request ctx)) key val ctx;
          ((tok, exp, _), s2) = call_Commit (sm ga) (Context (Request s1)) s1
      in call_WriteSessionCookie (sm ga) (Context (Request s2)) tok exp s2)"

definition Get ::
  "('c, 'v, 'w) GinAdapter \<Rightarrow> string \<Rightarrow> ('c, 'v, 'w) state \<Rightarrow> 'v \<times> ('c, 'v, 'w) state" where
  "Get ga key ctx =
     (let (val, s1) = call_Get (sm ga) (Context (Request ctx)) key ctx;
          (_, s2) = call_Commit (sm ga) (Context (Request s1)) s1
      in (val, s2))"

definition Remove ::
  "('c, 'v, 'w) GinAdapter \<Rightarrow> string \<Rightarrow> ('c, 'v, 'w) state \<Rightarrow> ('c, 'v, 'w) state" where
  "Remove ga key ctx =
     (let s1 = call_Remove (sm ga) (Context (Request ctx)) key ctx;
          ((tok, exp, _), s2) = call_Commit (sm ga) (Context (Request s1)) s1
      in call_WriteSessionCookie (sm ga) (Context (Request s2)) tok exp s2)"

definition Destroy ::
  "('c, 'v, 'w) GinAdapter \<Rightarrow> ('c, 'v, 'w) state \<Rightarrow> error option \<times> ('c, 'v, 'w) state" where
  "Destroy ga ctx =
     (let (err, s1) = call_Destroy (sm ga) (Context (Request ctx)) ctx
      in if err \<noteq> None then (err, s1)
         else (None, call_WriteSessionCookie (sm ga) (Context (Request s1)) [] Time_zero s1))"

definition RenewToken ::
  "('c, 'v, 'w) GinAdapter \<Rightarrow> ('c, 'v, 'w) state \<Rightarrow> error option \<times> ('c, 'v, 'w) state" where
  "RenewToken ga ctx =
     (let (err, s1) = call_RenewToken (sm ga) (Context (Request ctx)) ctx
      in if err \<noteq> None then (err, s1)
         else (let ((tok, exp, _), s2) = call_Commit (sm ga) (Context (Request s1)) s1
               in (None, call_WriteSessionCookie (sm ga) (Context (Request s2)) tok exp s2)))"

definition RememberMe ::
  "('c, 'v, 'w) GinAdapter \<Rightarrow> bool \<Rightarrow> ('c, 'v, 'w) state \<Rightarrow> ('c, 'v, 'w) state" where
  "RememberMe ga val ctx =
     (let s1 = call_RememberMe (sm ga) (Context (Request ctx)) val ctx;
          ((tok, exp, _), s2) = call_Commit (sm ga) (Context (Request s1)) s1
      in call_WriteSessionCookie (sm ga) (Context (Request s2)) tok exp s2)"

definition GetString ::
  "('c, 'v, 'w) GinAdapter \<Rightarrow> string \<Rightarrow> ('c, 'v, 'w) state \<Rightarrow> string \<times> ('c, 'v, 'w) state" where
  "GetString ga key ctx =
     (let (val, s1) = call_GetString (sm ga) (Context (Request ctx)) key ctx;
          ((tok, exp, _), s2) = call_Commit (sm ga) (Context (Request s1)) s1
      in (val, call_WriteSessionCookie (sm ga) (Context (Request s2)) tok exp s2))"

section \<open>Observations on the record of calls\<close>

text \<open>
  The three functions below read a record of calls newest first. \<open>latest_cookie\<close> is the
  token and expiry of the most recent cookie write, \<open>latest_commit\<close> those returned by
  the most recent commit that succeeded, and \<open>latest_destroyed\<close> tells whether the most
  recent call into the session manager, cookie writes apart, is a \<open>Destroy\<close> that
  succeeded.
\<close>

fun latest_cookie :: "('c, 'v) call list \<Rightarrow> (string \<times> Time) option" where
  "latest_cookie [] = None"
| "latest_cookie (Call_WriteSessionCookie ctx rw tok exp # cs) = Some (tok, exp)"
| "latest_cookie (c # cs) = latest_cookie cs"

fun latest_commit :: "('c, 'v) call list \<Rightarrow> (string \<times> Time) option" where
  "latest_commit [] = None"
| "latest_commit (Call_Commit ctx tok exp None # cs) = Some (tok, exp)"
| "latest_commit (c # cs) = latest_commit cs"

fun latest_destroyed :: "('c, 'v) call list \<Rightarrow> bool" where
  "latest_destroyed [] = False"
| "latest_destroyed (Call_WriteSessionCookie ctx rw tok exp # cs) = latest_destroyed cs"
| "latest_destroyed (Call_Destroy ctx None # cs) = True"
| "latest_destroyed (c # cs) = False"

definition last_cookie :: "('c, 'v) call list \<Rightarrow> (string \<times> Time) option" where
  "last_cookie cs = latest_cookie (rev cs)"

definition last_commit :: "('c, 'v) call list \<Rightarrow> (string \<times> Time) option" where
  "last_commit cs = latest_commit (rev cs)"

definition session_destroyed :: "('c, 'v) call list \<Rightarrow> bool" where
  "session_destroyed cs = latest_destroyed (rev cs)"


section \<open>A reference session manager\<close>

text \<open>
  Modelled from the spec: the SCS session manager, whose code is not among the adapter's
  sources. It is an in-memory manager that does what the spec and the adapter's comments
  say of each operation: values are kept per session; \<open>Commit\<close> persists them in the
  store under the session's token and yields the (possibly new) token and the expiry;
  \<open>RenewToken\<close> generates a new token for the existing data and deletes the old token's
  store entry; \<open>Destroy\<close> removes the session from the store. Every store access fails
  while \<open>store_down\<close> holds, and a failed commit returns the empty token and the zero time
  with its error. Tokens are minted from a counter, so that each new token differs from
  all earlier ones. There is no clock: the expiry is the session's fixed deadline.
\<close>

datatype val = VNil | VString string | VInt int

record mem_world =
  session_token :: string
  session_values :: "(string \<times> val) list"
  session_deadline :: Time
  remember :: bool
  store :: "(string \<times> (string \<times> val) list) list"
  store_down :: bool
  minted :: nat

definition new_token :: "nat \<Rightarrow> string" where
  "new_token n = CHR ''t'' # replicate n CHR ''x''"

definition store_error :: error where
  "store_error = Error ''store unavailable''"

definition mem_Load :: "bool \<Rightarrow> string \<Rightarrow> mem_world \<Rightarrow> (bool \<times> error option) \<times> mem_world" where
  "mem_Load ctx token w =
     (if token = [] then ((True, None), w\<lparr>session_token := [], session_values := []\<rparr>)
      else if store_down w then ((ctx, Some store_error), w)
      else (case map_of (store w) token of
              None \<Rightarrow> ((True, None), w\<lparr>session_token := [], session_values := []\<rparr>)
            | Some vs \<Rightarrow> ((True, None), w\<lparr>session_token := token, session_values := vs\<rparr>)))"

definition mem_Commit :: "bool \<Rightarrow> mem_world \<Rightarrow> (string \<times> Time \<times> error option) \<times> mem_world" where
  "mem_Commit ctx w =
     (if store_down w then (([], Time_zero, Some store_error), w)
      else (let fresh = (session_token w = []);
                tok = (if fresh then new_token (minted w) else session_token w)
            in ((tok, session_deadline w, None),
                w\<lparr>session_token := tok,
                  minted := (if fresh then Suc (minted w) else minted w),
                  store := (tok, session_values w) # filter (\<lambda>p. fst p \<noteq> tok) (store w)\<rparr>)))"

definition mem_Put :: "bool \<Rightarrow> string \<Rightarrow> val \<Rightarrow> mem_world \<Rightarrow> mem_world" where
  "mem_Put ctx key v w =
     w\<lparr>session_values := (key, v) # filter (\<lambda>p. fst p \<noteq> key) (session_values w)\<rparr>"

definition mem_Get :: "bool \<Rightarrow> string \<Rightarrow> mem_world \<Rightarrow> val \<times> mem_world" where
  "mem_Get ctx key w =
     ((case map_of (session_values w) key of Some v \<Rightarrow> v | None \<Rightarrow> VNil), w)"

definition mem_GetString :: "bool \<Rightarrow> string \<Rightarrow> mem_world \<Rightarrow> string \<times> mem_world" where
  "mem_GetString ctx key w =
     ((case map_of (session_values w) key of Some (VString str) \<Rightarrow> str | _ \<Rightarrow> []), w)"

definition mem_Remove :: "bool \<Rightarrow> string \<Rightarrow> mem_world \<Rightarrow> mem_world" where
  "mem_Remove ctx key w =
     w\<lparr>session_values := filter (\<lambda>p. fst p \<noteq> key) (session_values w)\<rparr>"

definition mem_Destroy :: "bool \<Rightarrow> mem_world \<Rightarrow> error option \<times> mem_world" where
  "mem_Destroy ctx w =
     (if store_down w then (Some store_error, w)
      else (None, w\<lparr>store := filter (\<lambda>p. fst p \<noteq> session_token w) (store w),
                    session_token := [], session_values := []\<rparr>))"

text \<open>
  Modelled from the spec: \<open>RenewToken\<close> deletes the old token's store entry, which is a
  store access only when the session has a token, returns the error when that fails, and
  otherwise gives the session a newly generated token while retaining its data.
\<close>

definition mem_RenewToken :: "bool \<Rightarrow> mem_world \<Rightarrow> error option \<times> mem_world" where
  "mem_RenewToken ctx w =
     (if session_token w \<noteq> [] \<and> store_down w then (Some store_error, w)
      else (None, w\<lparr>store := filter (\<lambda>p. fst p \<noteq> session_token w) (store w),
                    session_token := new_token (minted w), minted := Suc (minted w)\<rparr>))"

definition mem_RememberMe :: "bool \<Rightarrow> bool \<Rightarrow> mem_world \<Rightarrow> mem_world" where
  "mem_RememberMe ctx b w = w\<lparr>remember := b\<rparr>"

definition mem_WriteSessionCookie ::
  "bool \<Rightarrow> ResponseWriter \<Rightarrow> string \<Rightarrow> Time \<Rightarrow> mem_world \<Rightarrow> ResponseWriter \<times> mem_world" where
  "mem_WriteSessionCookie ctx rw token expiry w =
     (Header_Add ''Set-Cookie''
        (''session='' @ token @ (if expiry = Time_zero then ''; Max-Age=0'' else [])) rw, w)"

definition mem_ErrorFunc ::
  "ResponseWriter \<Rightarrow> bool http_Request \<Rightarrow> error \<Rightarrow> mem_world \<Rightarrow> ResponseWriter \<times> mem_world" where
  "mem_ErrorFunc rw req err w = (rw\<lparr>Status := 500, Body := ''Internal Server Error''\<rparr>, w)"

definition mem_manager :: "(bool, val, mem_world) SessionManager" where
  "mem_manager =
     \<lparr>scs_Cookie_Name = ''session'', scs_ErrorFunc = mem_ErrorFunc, scs_Load = mem_Load,
      scs_Commit = mem_Commit, scs_Put = mem_Put, scs_Get = mem_Get,
      scs_GetString = mem_GetString, scs_Remove = mem_Remove, scs_Destroy = mem_Destroy,
      scs_RenewToken = mem_RenewToken, scs_RememberMe = mem_RememberMe,
      scs_WriteSessionCookie = mem_WriteSessionCookie\<rparr>"

text \<open>
  A request without cookies on an empty store, the same request while the store is down,
  and a request that presents a session cookie while the store is down.
\<close>

definition world0 :: mem_world where
  "world0 = \<lparr>session_token = [], session_values = [], session_deadline = 3600,
             remember = False, store = [], store_down = False, minted = 0\<rparr>"

definition state0 :: "(bool, val, mem_world) state" where
  "state0 = \<lparr>Request = \<lparr>Cookies = [], Context = False\<rparr>,
             Writer = \<lparr>Header = [], Status = 200, Body = []\<rparr>,
             world = world0, calls = []\<rparr>"

text \<open>The state in which the handler of that first request starts, after \<open>LoadAndSave\<close>.\<close>

definition state1 :: "(bool, val, mem_world) state" where
  "state1 = \<lparr>Request = \<lparr>Cookies = [], Context = True\<rparr>,
             Writer = \<lparr>Header = [(''Vary'', ''Cookie'')], Status = 200, Body = []\<rparr>,
             world = world0, calls = [Call_Load False [] True None, Call_Next]\<rparr>"

definition store_fails :: "(bool, val, mem_world) state \<Rightarrow> (bool, val, mem_world) state" where
  "store_fails s = s\<lparr>world := (world s)\<lparr>store_down := True\<rparr>\<rparr>"

definition state_cookie :: "(bool, val, mem_world) state" where
  "state_cookie = store_fails (state0\<lparr>Request := \<lparr>Cookies = [(''session'', ''t'')], Context = False\<rparr>\<rparr>)"

text \<open>A returning client: its cookie names a session that the store holds.\<close>

definition state_returning :: "(bool, val, mem_world) state" where
  "state_returning =
     state0\<lparr>Request := \<lparr>Cookies = [(''session'', ''t'')], Context = False\<rparr>,
            world := world0\<lparr>store := [(''t'', [(''foo'', VString ''bar'')])], minted := 1\<rparr>\<rparr>"

text \<open>
  The handler of a returning client's request: the session is loaded, with the value
  \<open>bar\<close> under the key \<open>foo\<close>.
\<close>

definition state_session :: "(bool, val, mem_world) state" where
  "state_session =
     \<lparr>Request = \<lparr>Cookies = [(''session'', ''t'')], Context = True\<rparr>,
      Writer = \<lparr>Header = [(''Vary'', ''Cookie'')], Status = 200, Body = []\<rparr>,
      world = world0\<lparr>session_token := ''t'', session_values := [(''foo'', VString ''bar'')],
                     store := [(''t'', [(''foo'', VString ''bar'')])], minted := 1\<rparr>,
      calls = []\<rparr>"

text \<open>
  A token was minted before the counter reached \<open>n\<close>. In a well-formed world the
  session's token, if it has one, and the tokens of the store were all minted by this
  manager.
\<close>

definition token_minted :: "nat \<Rightarrow> string \<Rightarrow> bool" where
  "token_minted n t = (t \<in> set (map new_token [0..<n]))"

definition world_ok :: "mem_world \<Rightarrow> bool" where
  "world_ok w =
     ((session_token w = [] \<or> token_minted (minted w) (session_token w)) \<and>
      (\<forall>t \<in> fst ` set (store w). token_minted (minted w) t))"

section \<open>What each entry point does, in one equation\<close>

text \<open>
  Each accessor is unfolded once into the calls it makes and the state it leaves; the
  properties below are read off these equations.
\<close>

lemmas call_defs = call_Load_def call_ErrorFunc_def call_Next_def call_Put_def call_Get_def
  call_GetString_def call_Remove_def call_Destroy_def call_RenewToken_def call_RememberMe_def
  call_Commit_def call_WriteSessionCookie_def

lemmas mem_defs = mem_manager_def mem_Load_def mem_Commit_def mem_Put_def mem_Get_def
  mem_GetString_def mem_Remove_def mem_Destroy_def mem_RenewToken_def mem_RememberMe_def
  mem_WriteSessionCookie_def mem_ErrorFunc_def world0_def new_token_def store_error_def
  New_def Header_Add_def Cookie_def WithContext_def Time_zero_def

lemma Put_unfold:
  "Put ga key val s =
     (let c = Context (Request s);
          r = scs_Commit (sm ga) c (scs_Put (sm ga) c key val (world s));
          tok = fst (fst r); exp = fst (snd (fst r));
          wr = scs_WriteSessionCookie (sm ga) c (Writer s) tok exp (snd r)
      in s\<lparr>Writer := fst wr, world := snd wr,
            calls := calls s @ [Call_Put c key val, Call_Commit c tok exp (snd (snd (fst r))),
                                Call_WriteSessionCookie c (Writer s) tok exp]\<rparr>)"
  by (simp add: Put_def call_defs Let_def split_def)

lemma Remove_unfold:
  "Remove ga key s =
     (let c = Context (Request s);
          r = scs_Commit (sm ga) c (scs_Remove (sm ga) c key (world s));
          tok = fst (fst r); exp = fst (snd (fst r));
          wr = scs_WriteSessionCookie (sm ga) c (Writer s) tok exp (snd r)
      in s\<lparr>Writer := fst wr, world := snd wr,
            calls := calls s @ [Call_Remove c key, Call_Commit c tok exp (snd (snd (fst r))),
                                Call_WriteSessionCookie c (Writer s) tok exp]\<rparr>)"
  by (simp add: Remove_def call_defs Let_def split_def)

lemma RememberMe_unfold:
  "RememberMe ga b s =
     (let c = Context (Request s);
          r = scs_Commit (sm ga) c (scs_RememberMe (sm ga) c b (world s));
          tok = fst (fst r); exp = fst (snd (fst r));
          wr = scs_WriteSessionCookie (sm ga) c (Writer s) tok exp (snd r)
      in s\<lparr>Writer := fst wr, world := snd wr,
            calls := calls s @ [Call_RememberMe c b, Call_Commit c tok exp (snd (snd (fst r))),
                                Call_WriteSessionCookie c (Writer s) tok exp]\<rparr>)"
  by (simp add: RememberMe_def call_defs Let_def split_def)

lemma GetString_unfold:
  "GetString ga key s =
     (let c = Context (Request s);
          g = scs_GetString (sm ga) c key (world s);
          r = scs_Commit (sm ga) c (snd g);
          tok = fst (fst r); exp = fst (snd (fst r));
          wr = scs_WriteSessionCookie (sm ga) c (Writer s) tok exp (snd r)
      in (fst g,
          s\<lparr>Writer := fst wr, world := snd wr,
            calls := calls s @ [Call_GetString c key (fst g),
                                Call_Commit c tok exp (snd (snd (fst r))),
                                Call_WriteSessionCookie c (Writer s) tok exp]\<rparr>))"
  by (simp add: GetString_def call_defs Let_def split_def)

lemma Get_unfold:
  "Get ga key s =
     (let c = Context (Request s);
          g = scs_Get (sm ga) c key (world s);
          r = scs_Commit (sm ga) c (snd g)
      in (fst g,
          s\<lparr>world := snd r,
            calls := calls s @ [Call_Get c key (fst g),
                                Call_Commit c (fst (fst r)) (fst (snd (fst r)))
                                  (snd (snd (fst r)))]\<rparr>))"
  by (simp add: Get_def call_defs Let_def split_def)

lemma Destroy_unfold:
  "Destroy ga s =
     (let c = Context (Request s);
          d = scs_Destroy (sm ga) c (world s);
          wr = scs_WriteSessionCookie (sm ga) c (Writer s) [] Time_zero (snd d)
      in if fst d \<noteq> None
         then (fst d, s\<lparr>world := snd d, calls := calls s @ [Call_Destroy c (fst d)]\<rparr>)
         else (None,
               s\<lparr>Writer := fst wr, world := snd wr,
                 calls := calls s @ [Call_Destroy c None,
                                     Call_WriteSessionCookie c (Writer s) [] Time_zero]\<rparr>))"
  by (simp add: Destroy_def call_defs Let_def split_def)

lemma RenewToken_unfold:
  "RenewToken ga s =
     (let c = Context (Request s);
          d = scs_RenewToken (sm ga) c (world s);
          r = scs_Commit (sm ga) c (snd d);
          tok = fst (fst r); exp = fst (snd (fst r));
          wr = scs_WriteSessionCookie (sm ga) c (Writer s) tok exp (snd r)
      in if fst d \<noteq> None
         then (fst d, s\<lparr>world := snd d, calls := calls s @ [Call_RenewToken c (fst d)]\<rparr>)
         else (None,
               s\<lparr>Writer := fst wr, world := snd wr,
                 calls := calls s @ [Call_RenewToken c None,
                                     Call_Commit c tok exp (snd (snd (fst r))),
                                     Call_WriteSessionCookie c (Writer s) tok exp]\<rparr>))"
  by (simp add: RenewToken_def call_defs Let_def split_def)

lemma LoadAndSave_unfold:
  "LoadAndSave ga next s =
     (let req = Request s;
          token = (case Cookie req (scs_Cookie_Name (sm ga)) of Some v \<Rightarrow> v | None \<Rightarrow> []);
          l = scs_Load (sm ga) (Context req) token (world s);
          ctx = fst (fst l);
          ef = scs_ErrorFunc (sm ga) (Writer s) req (the (snd (fst l))) (snd l)
      in case snd (fst l) of
           Some e \<Rightarrow>
             s\<lparr>Writer := fst ef, world := snd ef,
               calls := calls s @ [Call_Load (Context req) token ctx (Some e),
                                   Call_ErrorFunc (Writer s) req e]\<rparr>
         | None \<Rightarrow>
             next (s\<lparr>Request := req\<lparr>Context := ctx\<rparr>,
                     Writer := (Writer s)\<lparr>Header := Header (Writer s) @ [(''Vary'', ''Cookie'')]\<rparr>,
                     world := snd l,
                     calls := calls s @ [Call_Load (Context req) token ctx None, Call_Next]\<rparr>))"
  by (auto simp add: LoadAndSave_def call_defs Let_def split_def Header_Add_def WithContext_def
      split: option.split intro!: arg_cong [where f = "next"] state.equality)


lemma last_cookie_snoc:
  "last_cookie (cs @ [Call_WriteSessionCookie c rw tok exp]) = Some (tok, exp)"
  by (simp add: last_cookie_def)





text \<open>
  Minted tokens: none is empty, different counters give different tokens, and the next
  token to be minted is none of the earlier ones.
\<close>

lemma new_token_not_empty: "new_token n \<noteq> []"
  by (simp add: new_token_def)

lemma new_token_inject: "new_token a = new_token b \<longleftrightarrow> a = b"
proof
  assume "new_token a = new_token b"
  then have "length (new_token a) = length (new_token b)" by simp
  then show "a = b" by (simp add: new_token_def)
qed simp

lemma token_minted_iff: "token_minted n t \<longleftrightarrow> (\<exists>k<n. t = new_token k)"
  by (auto simp add: token_minted_def)

lemma token_minted_not_next: "token_minted n t \<Longrightarrow> t \<noteq> new_token n"
  by (auto simp add: token_minted_iff new_token_inject)

lemma token_minted_Suc: "token_minted n t \<Longrightarrow> token_minted (Suc n) t"
  by (auto simp add: token_minted_iff intro: less_SucI)

lemma token_minted_next: "token_minted (Suc n) (new_token n)"
  by (auto simp add: token_minted_iff)

text \<open>
  Well-formed worlds are the ones the manager produces: the empty store is well formed,
  and every operation keeps a world well formed.
\<close>

lemma world_ok_world0: "world_ok world0"
  by (simp add: world_ok_def world0_def)

lemma world_ok_Load: "world_ok w \<Longrightarrow> world_ok (snd (mem_Load ctx token w))"
  by (auto simp add: world_ok_def mem_Load_def split: option.splits dest!: map_of_SomeD
      intro: rev_image_eqI)

lemma world_ok_Commit: "world_ok w \<Longrightarrow> world_ok (snd (mem_Commit ctx w))"
  by (fastforce simp add: world_ok_def mem_Commit_def Let_def token_minted_next
      intro: token_minted_Suc)

lemma world_ok_RenewToken: "world_ok w \<Longrightarrow> world_ok (snd (mem_RenewToken ctx w))"
  by (fastforce simp add: world_ok_def mem_RenewToken_def token_minted_next
      intro: token_minted_Suc)

lemma world_ok_Destroy: "world_ok w \<Longrightarrow> world_ok (snd (mem_Destroy ctx w))"
  by (auto simp add: world_ok_def mem_Destroy_def)

lemma world_ok_values:
  "world_ok w \<Longrightarrow> world_ok (mem_Put ctx key v w) \<and> world_ok (mem_Remove ctx key w) \<and>
     world_ok (mem_RememberMe ctx b w) \<and> world_ok (snd (mem_Get ctx key w)) \<and>
     world_ok (snd (mem_GetString ctx key w)) \<and>
     world_ok (snd (mem_WriteSessionCookie ctx rw tok exp w)) \<and>
     world_ok (snd (mem_ErrorFunc rw req err w))"
  by (simp add: world_ok_def mem_Put_def mem_Remove_def mem_RememberMe_def mem_Get_def
      mem_GetString_def mem_WriteSessionCookie_def mem_ErrorFunc_def)

text \<open>
  What a renewal followed by a commit leaves, and what a \<open>Put\<close> followed by a commit
  leaves, in the reference manager.
\<close>

lemma token_minted_mono:
  assumes "token_minted n t" and "n \<le> m"
  shows "token_minted m t"
proof -
  from assms(1) obtain k where "k < n" and "t = new_token k"
    by (auto simp add: token_minted_iff)
  with assms(2) have "k < m \<and> t = new_token k" by simp
  then show ?thesis unfolding token_minted_iff by blast
qed

lemma renewed_token:
  "fst (mem_RenewToken c w) = None \<Longrightarrow>
     session_token (snd (mem_Commit c (snd (mem_RenewToken c w)))) = new_token (minted w)"
  by (auto simp add: mem_RenewToken_def mem_Commit_def Let_def new_token_not_empty
      split: if_splits)

lemma renewed_values:
  "session_values (snd (mem_Commit c (snd (mem_RenewToken c w)))) = session_values w"
  by (simp add: mem_RenewToken_def mem_Commit_def Let_def)

lemma renewed_store:
  assumes "\<not> store_down w" and "session_token w = [] \<or> token_minted (minted w) (session_token w)"
  shows "fst (mem_RenewToken c w) = None"
    and "fst (mem_Commit c (snd (mem_RenewToken c w)))
           = (new_token (minted w), session_deadline w, None)"
    and "session_deadline (snd (mem_Commit c (snd (mem_RenewToken c w)))) = session_deadline w"
    and "map_of (store (snd (mem_Commit c (snd (mem_RenewToken c w))))) (new_token (minted w))
           = Some (session_values w)"
    and "map_of (store (snd (mem_Commit c (snd (mem_RenewToken c w))))) (session_token w) = None"
proof -
  from assms(2) have ne: "session_token w \<noteq> new_token (minted w)"
    by (metis new_token_not_empty token_minted_not_next)
  show "fst (mem_RenewToken c w) = None"
    using assms(1) by (simp add: mem_RenewToken_def)
  show "fst (mem_Commit c (snd (mem_RenewToken c w)))
           = (new_token (minted w), session_deadline w, None)"
    using assms(1) by (simp add: mem_RenewToken_def mem_Commit_def Let_def new_token_not_empty)
  show "session_deadline (snd (mem_Commit c (snd (mem_RenewToken c w)))) = session_deadline w"
    by (simp add: mem_RenewToken_def mem_Commit_def Let_def)
  show "map_of (store (snd (mem_Commit c (snd (mem_RenewToken c w))))) (new_token (minted w))
           = Some (session_values w)"
    using assms(1) by (simp add: mem_RenewToken_def mem_Commit_def Let_def new_token_not_empty)
  have "session_token w \<notin> fst ` set (filter (\<lambda>p. fst p \<noteq> session_token w) (store w))"
    by auto
  then have "map_of (filter (\<lambda>p. fst p \<noteq> new_token (minted w))
                 (filter (\<lambda>p. fst p \<noteq> session_token w) (store w))) (session_token w) = None"
    by (auto simp add: map_of_eq_None_iff)
  then show "map_of (store (snd (mem_Commit c (snd (mem_RenewToken c w))))) (session_token w) = None"
    using assms(1) ne by (simp add: mem_RenewToken_def mem_Commit_def Let_def new_token_not_empty)
qed

lemma put_committed:
  fixes w :: mem_world and c :: bool and key :: string and val :: val
  defines "w1 \<equiv> snd (mem_Commit c (mem_Put c key val w))"
  assumes "world_ok w"
  shows "world_ok w1"
    and "map_of (session_values w1) key = Some val"
    and "store_down w1 = store_down w"
    and "minted w \<le> minted w1"
proof -
  show "world_ok w1" unfolding w1_def
    using assms(2) world_ok_values [of w c key val] world_ok_Commit by blast
  show "map_of (session_values w1) key = Some val"
    by (simp add: w1_def mem_Commit_def mem_Put_def Let_def)
  show "store_down w1 = store_down w"
    by (simp add: w1_def mem_Commit_def mem_Put_def Let_def)
  show "minted w \<le> minted w1"
    by (simp add: w1_def mem_Commit_def mem_Put_def Let_def)
qed

section \<open>The cookie after a mutating accessor\<close>




section \<open>Reading a value\<close>

text \<open>
  C2. The claim: \<open>Get\<close> and every typed getter return the value and also commit and then
  write the session cookie. \<open>GetString\<close> does; \<open>Get\<close> commits and stops there. In the
  handler of a first request, \<open>Get\<close> returns the (absent) value and the commit mints and
  stores the token \<open>t\<close>, but the response writer is left as it was, without any
  \<open>Set-Cookie\<close> entry, while \<open>GetString\<close> at the same state writes the cookie for \<open>t\<close>.
\<close>

theorem Get_commits_without_cookie_write:
  "fst (Get (New mem_manager) ''foo'' state1) = VNil \<and>
   calls (snd (Get (New mem_manager) ''foo'' state1))
     = calls state1 @ [Call_Get True ''foo'' VNil, Call_Commit True ''t'' 3600 None] \<and>
   Writer (snd (Get (New mem_manager) ''foo'' state1)) = Writer state1 \<and>
   Header_Values (Writer (snd (Get (New mem_manager) ''foo'' state1))) ''Set-Cookie'' = [] \<and>
   Header_Values (Writer (snd (GetString (New mem_manager) ''foo'' state1))) ''Set-Cookie''
     = [''session=t'']"
  by (simp add: Get_unfold GetString_unfold mem_defs state1_def Let_def Header_Values_def)

section \<open>Store failures that are reported\<close>

text \<open>
  C3. When the session manager's \<open>Destroy\<close> fails, the adapter's \<open>Destroy\<close> returns that
  error, makes no further call and leaves the response writer as it was. When it succeeds,
  \<open>Destroy\<close> calls the cookie-writing routine with the empty token and the zero time, and
  returns no error; the writer is the one that routine produced.
\<close>

theorem Destroy_error_handling:
  fixes ga :: "('c, 'v, 'w) GinAdapter" and s :: "('c, 'v, 'w) state"
  defines "c \<equiv> Context (Request s)"
  shows
    "(fst (scs_Destroy (sm ga) c (world s)) = Some e \<longrightarrow>
        fst (Destroy ga s) = Some e \<and>
        Writer (snd (Destroy ga s)) = Writer s \<and>
        calls (snd (Destroy ga s)) = calls s @ [Call_Destroy c (Some e)]) \<and>
     (fst (scs_Destroy (sm ga) c (world s)) = None \<longrightarrow>
        fst (Destroy ga s) = None \<and>
        calls (snd (Destroy ga s))
          = calls s @ [Call_Destroy c None, Call_WriteSessionCookie c (Writer s) [] Time_zero] \<and>
        Writer (snd (Destroy ga s))
          = fst (scs_WriteSessionCookie (sm ga) c (Writer s) [] Time_zero
                   (snd (scs_Destroy (sm ga) c (world s)))))"
  by (simp add: Destroy_unfold Let_def c_def)

text \<open>
  Both cases at the reference manager: with the store down nothing is added to the
  response, with the store up the clearing cookie is.
\<close>

theorem Destroy_error_handling_witness:
  "fst (scs_Destroy mem_manager True (world (store_fails state1))) = Some store_error \<and>
   fst (Destroy (New mem_manager) (store_fails state1)) = Some store_error \<and>
   Header (Writer (snd (Destroy (New mem_manager) (store_fails state1)))) = [(''Vary'', ''Cookie'')] \<and>
   fst (scs_Destroy mem_manager True (world state1)) = None \<and>
   fst (Destroy (New mem_manager) state1) = None \<and>
   Header (Writer (snd (Destroy (New mem_manager) state1)))
     = [(''Vary'', ''Cookie''), (''Set-Cookie'', ''session=; Max-Age=0'')]"
  using Destroy_error_handling [where ga = "New mem_manager" and s = "store_fails state1"
      and e = store_error]
    Destroy_error_handling [where ga = "New mem_manager" and s = state1]
  by (simp add: mem_defs state1_def store_fails_def Let_def)

text \<open>
  C4. The claim: when the session manager's \<open>RenewToken\<close> fails, the adapter's
  \<open>RenewToken\<close> returns the error without a commit and without a cookie write; when it
  succeeds, \<open>RenewToken\<close> commits, writes a cookie carrying the new token and expiry, and
  returns no error. The second half fails when the commit that follows the renewal
  fails. In the handler of a first request with the store down, the session has no token
  yet, so the renewal touches no store entry and succeeds, giving the session the token
  \<open>t\<close>; the commit then fails, and \<open>RenewToken\<close> returns no error although the cookie it
  has written carries the empty token and the zero time instead of \<open>t\<close>.
\<close>

theorem RenewToken_failed_commit_counterexample:
  "fst (scs_RenewToken mem_manager True (world (store_fails state1))) = None \<and>
   fst (RenewToken (New mem_manager) (store_fails state1)) = None \<and>
   session_token (world (snd (RenewToken (New mem_manager) (store_fails state1)))) = ''t'' \<and>
   last_cookie (calls (snd (RenewToken (New mem_manager) (store_fails state1))))
     = Some ([], Time_zero) \<and>
   Header_Values (Writer (snd (RenewToken (New mem_manager) (store_fails state1)))) ''Set-Cookie''
     = [''session=; Max-Age=0'']"
  by (simp add: RenewToken_unfold mem_defs state1_def store_fails_def Let_def last_cookie_def
      Header_Values_def)

text \<open>
  C4, as amended. When the session manager's \<open>RenewToken\<close> fails, the adapter's
  \<open>RenewToken\<close> returns that error without a commit and without a cookie write: the call
  is the only one made, the writer is unchanged and the session state is the one the
  failed call left. When it succeeds and the commit that follows succeeds as well,
  \<open>RenewToken\<close> returns no error, its calls are the renewal, the commit and the cookie
  write, the cookie carries the token and expiry that this commit returned, which is
  then the last successful commit, and the writer and the session state are the ones the
  cookie write left after the commit.
\<close>

theorem RenewToken_error_handling:
  fixes ga :: "('c, 'v, 'w) GinAdapter" and s :: "('c, 'v, 'w) state"
  defines "c \<equiv> Context (Request s)"
  defines "w1 \<equiv> snd (scs_RenewToken (sm ga) c (world s))"
  defines "w2 \<equiv> snd (scs_Commit (sm ga) c w1)"
  shows
    "(fst (scs_RenewToken (sm ga) c (world s)) = Some e \<longrightarrow>
        fst (RenewToken ga s) = Some e \<and>
        Writer (snd (RenewToken ga s)) = Writer s \<and>
        world (snd (RenewToken ga s)) = w1 \<and>
        calls (snd (RenewToken ga s)) = calls s @ [Call_RenewToken c (Some e)]) \<and>
     (fst (scs_RenewToken (sm ga) c (world s)) = None \<and>
      fst (scs_Commit (sm ga) c w1) = (tok, exp, None) \<longrightarrow>
        fst (RenewToken ga s) = None \<and>
        calls (snd (RenewToken ga s))
          = calls s @ [Call_RenewToken c None, Call_Commit c tok exp None,
                       Call_WriteSessionCookie c (Writer s) tok exp] \<and>
        last_cookie (calls (snd (RenewToken ga s))) = Some (tok, exp) \<and>
        last_commit (calls (snd (RenewToken ga s))) = Some (tok, exp) \<and>
        Writer (snd (RenewToken ga s))
          = fst (scs_WriteSessionCookie (sm ga) c (Writer s) tok exp w2) \<and>
        world (snd (RenewToken ga s))
          = snd (scs_WriteSessionCookie (sm ga) c (Writer s) tok exp w2))"
  by (simp add: RenewToken_unfold Let_def c_def w1_def w2_def last_cookie_def last_commit_def)

text \<open>
  Both cases at the reference manager, in the handler of a returning client whose session
  has the token \<open>t\<close>. With the store down the old entry cannot be deleted: the error is
  returned and nothing is added to the response. With the store up the session moves to
  the new token \<open>tx\<close>, the store holds its data under \<open>tx\<close> only, and the cookie carries
  \<open>tx\<close>.
\<close>

theorem RenewToken_error_handling_witness:
  "fst (scs_RenewToken mem_manager True (world (store_fails state_session))) = Some store_error \<and>
   fst (RenewToken (New mem_manager) (store_fails state_session)) = Some store_error \<and>
   Header (Writer (snd (RenewToken (New mem_manager) (store_fails state_session))))
     = [(''Vary'', ''Cookie'')] \<and>
   world (snd (RenewToken (New mem_manager) (store_fails state_session)))
     = world (store_fails state_session) \<and>
   calls (snd (RenewToken (New mem_manager) (store_fails state_session)))
     = [Call_RenewToken True (Some store_error)] \<and>
   fst (scs_RenewToken mem_manager True (world state_session)) = None \<and>
   fst (scs_Commit mem_manager True (snd (scs_RenewToken mem_manager True (world state_session))))
     = (''tx'', 3600, None) \<and>
   fst (RenewToken (New mem_manager) state_session) = None \<and>
   last_cookie (calls (snd (RenewToken (New mem_manager) state_session))) = Some (''tx'', 3600) \<and>
   Header (Writer (snd (RenewToken (New mem_manager) state_session)))
     = [(''Vary'', ''Cookie''), (''Set-Cookie'', ''session=tx'')] \<and>
   session_token (world (snd (RenewToken (New mem_manager) state_session))) = ''tx'' \<and>
   store (world (snd (RenewToken (New mem_manager) state_session)))
     = [(''tx'', [(''foo'', VString ''bar'')])]"
  using RenewToken_error_handling [where ga = "New mem_manager"
      and s = "store_fails state_session" and e = store_error]
    RenewToken_error_handling [where ga = "New mem_manager" and s = state_session
      and tok = "''tx''" and exp = 3600]
  by (simp add: mem_defs state_session_def store_fails_def Let_def last_cookie_def
      last_commit_def)

section \<open>The middleware\<close>

text \<open>
  C5. When \<open>Load\<close> fails, \<open>LoadAndSave\<close> calls the configured error handler once, with
  the response writer, the request and the error, and returns: \<open>Load\<close> and the error
  handler are the only calls, so \<open>Next\<close> is not called; the request is the one that
  came in, context included; and the writer is what the error handler made of it, with no
  \<open>Vary\<close> entry added by the middleware.
\<close>

theorem LoadAndSave_load_failure:
  fixes ga :: "('c, 'v, 'w) GinAdapter" and s :: "('c, 'v, 'w) state"
  defines "token \<equiv> case Cookie (Request s) (scs_Cookie_Name (sm ga)) of Some v \<Rightarrow> v | None \<Rightarrow> []"
  defines "l \<equiv> scs_Load (sm ga) (Context (Request s)) token (world s)"
  assumes "fst l = (ctx, Some e)"
  shows "Request (LoadAndSave ga next s) = Request s \<and>
         Writer (LoadAndSave ga next s)
           = fst (scs_ErrorFunc (sm ga) (Writer s) (Request s) e (snd l)) \<and>
         world (LoadAndSave ga next s)
           = snd (scs_ErrorFunc (sm ga) (Writer s) (Request s) e (snd l)) \<and>
         calls (LoadAndSave ga next s)
           = calls s @ [Call_Load (Context (Request s)) token ctx (Some e),
                        Call_ErrorFunc (Writer s) (Request s) e]"
  using assms by (simp add: LoadAndSave_unfold Let_def)

text \<open>
  A request whose cookie names a session while the store is down. The rest of the chain
  given here would erase the record of calls, had it been run.
\<close>

theorem LoadAndSave_load_failure_witness:
  "fst (scs_Load mem_manager False ''t'' (world state_cookie)) = (False, Some store_error) \<and>
   Request (LoadAndSave (New mem_manager) (\<lambda>s. s\<lparr>calls := []\<rparr>) state_cookie) = Request state_cookie \<and>
   Writer (LoadAndSave (New mem_manager) (\<lambda>s. s\<lparr>calls := []\<rparr>) state_cookie)
     = \<lparr>Header = [], Status = 500, Body = ''Internal Server Error''\<rparr> \<and>
   calls (LoadAndSave (New mem_manager) (\<lambda>s. s\<lparr>calls := []\<rparr>) state_cookie)
     = [Call_Load False ''t'' False (Some store_error),
        Call_ErrorFunc (Writer state_cookie) (Request state_cookie) store_error]"
  using LoadAndSave_load_failure [where ga = "New mem_manager" and s = state_cookie
      and ctx = False and e = store_error and ?next = "\<lambda>s. s\<lparr>calls := []\<rparr>"]
  by (simp add: mem_defs state_cookie_def store_fails_def state0_def Let_def)

text \<open>
  C6. A request that carries no cookie under the configured name is not an error:
  \<open>LoadAndSave\<close> calls \<open>Load\<close> with the empty token, and when the session manager answers
  that with a context and no error (a new session), this context is attached to the
  request and the rest of the chain runs.
\<close>

theorem LoadAndSave_without_cookie:
  fixes ga :: "('c, 'v, 'w) GinAdapter" and s :: "('c, 'v, 'w) state"
  assumes "scs_Cookie_Name (sm ga) \<notin> fst ` set (Cookies (Request s))"
    and "fst (scs_Load (sm ga) (Context (Request s)) [] (world s)) = (ctx, None)"
  shows "LoadAndSave ga next s =
           next (s\<lparr>Request := (Request s)\<lparr>Context := ctx\<rparr>,
                   Writer := Header_Add ''Vary'' ''Cookie'' (Writer s),
                   world := snd (scs_Load (sm ga) (Context (Request s)) [] (world s)),
                   calls := calls s @ [Call_Load (Context (Request s)) [] ctx None, Call_Next]\<rparr>)"
proof -
  from assms(1) have "map_of (Cookies (Request s)) (scs_Cookie_Name (sm ga)) = None"
    by (simp add: map_of_eq_None_iff)
  then have "Cookie (Request s) (scs_Cookie_Name (sm ga)) = None"
    by (simp add: Cookie_def)
  with assms(2) show ?thesis
    by (simp add: LoadAndSave_unfold Let_def Header_Add_def)
qed

text \<open>The first request of a client, handed to the handler as \<open>state1\<close>.\<close>

theorem LoadAndSave_without_cookie_witness:
  "scs_Cookie_Name mem_manager \<notin> fst ` set (Cookies (Request state0)) \<and>
   fst (scs_Load mem_manager (Context (Request state0)) [] (world state0)) = (True, None) \<and>
   LoadAndSave (New mem_manager) (\<lambda>s. s) state0 = state1"
  using LoadAndSave_without_cookie [where ga = "New mem_manager" and s = state0
      and ctx = True and ?next = "\<lambda>s. s"]
  by (simp add: mem_defs state0_def state1_def Let_def)

text \<open>
  C7. When \<open>Load\<close> succeeds, \<open>LoadAndSave\<close> hands to the rest of the chain a state in which
  the request carries the context that \<open>Load\<close> returned and the response has one more
  header entry, \<open>Vary: Cookie\<close>; the request's cookies and the writer's other fields are
  untouched, and \<open>Next\<close> is called after both changes, as the last thing the middleware
  does.
\<close>

theorem LoadAndSave_load_success:
  fixes ga :: "('c, 'v, 'w) GinAdapter" and s :: "('c, 'v, 'w) state"
  defines "token \<equiv> case Cookie (Request s) (scs_Cookie_Name (sm ga)) of Some v \<Rightarrow> v | None \<Rightarrow> []"
  defines "l \<equiv> scs_Load (sm ga) (Context (Request s)) token (world s)"
  assumes "fst l = (ctx, None)"
  shows "LoadAndSave ga next s =
           next (s\<lparr>Request := (Request s)\<lparr>Context := ctx\<rparr>,
                   Writer := (Writer s)\<lparr>Header := Header (Writer s) @ [(''Vary'', ''Cookie'')]\<rparr>,
                   world := snd l,
                   calls := calls s @ [Call_Load (Context (Request s)) token ctx None, Call_Next]\<rparr>)"
  using assms by (simp add: LoadAndSave_unfold Let_def)

text \<open>A returning client: the handler finds the stored value.\<close>

theorem LoadAndSave_load_success_witness:
  "fst (scs_Load mem_manager False ''t'' (world state_returning)) = (True, None) \<and>
   Request (LoadAndSave (New mem_manager) (\<lambda>s. s) state_returning)
     = \<lparr>Cookies = [(''session'', ''t'')], Context = True\<rparr> \<and>
   Writer (LoadAndSave (New mem_manager) (\<lambda>s. s) state_returning)
     = \<lparr>Header = [(''Vary'', ''Cookie'')], Status = 200, Body = []\<rparr> \<and>
   calls (LoadAndSave (New mem_manager) (\<lambda>s. s) state_returning)
     = [Call_Load False ''t'' True None, Call_Next] \<and>
   fst (GetString (New mem_manager) ''foo''
          (LoadAndSave (New mem_manager) (\<lambda>s. s) state_returning)) = ''bar''"
  using LoadAndSave_load_success [where ga = "New mem_manager" and s = state_returning
      and ctx = True and ?next = "\<lambda>s. s"]
  by (simp add: mem_defs state_returning_def state0_def Let_def GetString_unfold)

section \<open>Commit failures that are not reported\<close>

text \<open>
  C8. In \<open>Put\<close>, \<open>Remove\<close>, \<open>RememberMe\<close> and \<open>Get\<close> a failed commit is swallowed. The
  first three return no error value at all; when their commit fails they still run to
  their last call, the failure showing only in the record of calls. \<open>Get\<close> returns the
  value that the session manager's \<open>Get\<close> gave, whatever the commit did.
\<close>

theorem commit_failure_swallowed:
  fixes ga :: "('c, 'v, 'w) GinAdapter" and s :: "('c, 'v, 'w) state"
  defines "c \<equiv> Context (Request s)"
  shows
    "(fst (scs_Commit (sm ga) c (scs_Put (sm ga) c key val (world s))) = (tok1, exp1, Some e1) \<longrightarrow>
        calls (Put ga key val s)
          = calls s @ [Call_Put c key val, Call_Commit c tok1 exp1 (Some e1),
                       Call_WriteSessionCookie c (Writer s) tok1 exp1]) \<and>
     (fst (scs_Commit (sm ga) c (scs_Remove (sm ga) c key (world s))) = (tok2, exp2, Some e2) \<longrightarrow>
        calls (Remove ga key s)
          = calls s @ [Call_Remove c key, Call_Commit c tok2 exp2 (Some e2),
                       Call_WriteSessionCookie c (Writer s) tok2 exp2]) \<and>
     (fst (scs_Commit (sm ga) c (scs_RememberMe (sm ga) c b (world s))) = (tok3, exp3, Some e3) \<longrightarrow>
        calls (RememberMe ga b s)
          = calls s @ [Call_RememberMe c b, Call_Commit c tok3 exp3 (Some e3),
                       Call_WriteSessionCookie c (Writer s) tok3 exp3]) \<and>
     (fst (scs_Commit (sm ga) c (snd (scs_Get (sm ga) c key (world s)))) = (tok4, exp4, Some e4) \<longrightarrow>
        fst (Get ga key s) = fst (scs_Get (sm ga) c key (world s)) \<and>
        calls (snd (Get ga key s))
          = calls s @ [Call_Get c key (fst (scs_Get (sm ga) c key (world s))),
                       Call_Commit c tok4 exp4 (Some e4)])"
  by (simp add: Put_unfold Remove_unfold RememberMe_unfold Get_unfold Let_def c_def)

text \<open>The four accessors in a loaded session while the store is down.\<close>

theorem commit_failure_swallowed_witness:
  "fst (scs_Commit mem_manager True
          (scs_Put mem_manager True ''foo'' (VString ''bar'') (world (store_fails state_session))))
     = ([], Time_zero, Some store_error) \<and>
   calls (Put (New mem_manager) ''foo'' (VString ''bar'') (store_fails state_session))
     = [Call_Put True ''foo'' (VString ''bar''), Call_Commit True [] Time_zero (Some store_error),
        Call_WriteSessionCookie True (Writer state_session) [] Time_zero] \<and>
   fst (scs_Commit mem_manager True
          (scs_Remove mem_manager True ''foo'' (world (store_fails state_session))))
     = ([], Time_zero, Some store_error) \<and>
   calls (Remove (New mem_manager) ''foo'' (store_fails state_session))
     = [Call_Remove True ''foo'', Call_Commit True [] Time_zero (Some store_error),
        Call_WriteSessionCookie True (Writer state_session) [] Time_zero] \<and>
   fst (scs_Commit mem_manager True
          (scs_RememberMe mem_manager True True (world (store_fails state_session))))
     = ([], Time_zero, Some store_error) \<and>
   calls (RememberMe (New mem_manager) True (store_fails state_session))
     = [Call_RememberMe True True, Call_Commit True [] Time_zero (Some store_error),
        Call_WriteSessionCookie True (Writer state_session) [] Time_zero] \<and>
   fst (scs_Commit mem_manager True
          (snd (scs_Get mem_manager True ''foo'' (world (store_fails state_session)))))
     = ([], Time_zero, Some store_error) \<and>
   fst (Get (New mem_manager) ''foo'' (store_fails state_session)) = VString ''bar'' \<and>
   calls (snd (Get (New mem_manager) ''foo'' (store_fails state_session)))
     = [Call_Get True ''foo'' (VString ''bar''), Call_Commit True [] Time_zero (Some store_error)]"
  using commit_failure_swallowed [where ga = "New mem_manager" and s = "store_fails state_session"
      and key = "''foo''" and val = "VString ''bar''" and b = True
      and ?tok1.0 = "[]" and ?exp1.0 = Time_zero and ?e1.0 = store_error
      and ?tok2.0 = "[]" and ?exp2.0 = Time_zero and ?e2.0 = store_error
      and ?tok3.0 = "[]" and ?exp3.0 = Time_zero and ?e3.0 = store_error
      and ?tok4.0 = "[]" and ?exp4.0 = Time_zero and ?e4.0 = store_error]
  by (simp add: mem_defs store_fails_def state_session_def Let_def)

text \<open>
  C10. When the commit fails in \<open>Put\<close>, \<open>Remove\<close>, \<open>RememberMe\<close> or \<open>GetString\<close>, the
  adapter still calls the cookie-writing routine, as its last call, with the token and
  expiry that the failed commit returned, and the response writer is the one this
  routine produced, although the session was not destroyed. For a session manager whose
  failed commit returns the empty token and the zero time, this is the cookie-clearing
  call that \<open>Destroy\<close> makes.
\<close>

theorem failed_commit_cookie_write:
  fixes ga :: "('c, 'v, 'w) GinAdapter" and s :: "('c, 'v, 'w) state"
    and key :: string and val :: 'v and b :: bool
  defines "c \<equiv> Context (Request s)"
  defines "w1 \<equiv> scs_Put (sm ga) c key val (world s)"
  defines "w2 \<equiv> scs_Remove (sm ga) c key (world s)"
  defines "w3 \<equiv> scs_RememberMe (sm ga) c b (world s)"
  defines "w4 \<equiv> snd (scs_GetString (sm ga) c key (world s))"
  shows
    "(fst (scs_Commit (sm ga) c w1) = (tok1, exp1, Some e1) \<longrightarrow>
        last (calls (Put ga key val s)) = Call_WriteSessionCookie c (Writer s) tok1 exp1 \<and>
        Writer (Put ga key val s)
          = fst (scs_WriteSessionCookie (sm ga) c (Writer s) tok1 exp1 (snd (scs_Commit (sm ga) c w1))) \<and>
        \<not> session_destroyed (calls (Put ga key val s))) \<and>
     (fst (scs_Commit (sm ga) c w2) = (tok2, exp2, Some e2) \<longrightarrow>
        last (calls (Remove ga key s)) = Call_WriteSessionCookie c (Writer s) tok2 exp2 \<and>
        Writer (Remove ga key s)
          = fst (scs_WriteSessionCookie (sm ga) c (Writer s) tok2 exp2 (snd (scs_Commit (sm ga) c w2))) \<and>
        \<not> session_destroyed (calls (Remove ga key s))) \<and>
     (fst (scs_Commit (sm ga) c w3) = (tok3, exp3, Some e3) \<longrightarrow>
        last (calls (RememberMe ga b s)) = Call_WriteSessionCookie c (Writer s) tok3 exp3 \<and>
        Writer (RememberMe ga b s)
          = fst (scs_WriteSessionCookie (sm ga) c (Writer s) tok3 exp3 (snd (scs_Commit (sm ga) c w3))) \<and>
        \<not> session_destroyed (calls (RememberMe ga b s))) \<and>
     (fst (scs_Commit (sm ga) c w4) = (tok4, exp4, Some e4) \<longrightarrow>
        last (calls (snd (GetString ga key s))) = Call_WriteSessionCookie c (Writer s) tok4 exp4 \<and>
        Writer (snd (GetString ga key s))
          = fst (scs_WriteSessionCookie (sm ga) c (Writer s) tok4 exp4 (snd (scs_Commit (sm ga) c w4))) \<and>
        \<not> session_destroyed (calls (snd (GetString ga key s))))"
  by (simp add: Put_unfold Remove_unfold RememberMe_unfold GetString_unfold Let_def
      c_def w1_def w2_def w3_def w4_def session_destroyed_def)

text \<open>
  At the reference manager the failed commit returns the empty token and the zero time,
  and each of the four accessors adds the clearing cookie to the response.
\<close>

theorem failed_commit_cookie_write_witness:
  "fst (scs_Commit mem_manager True
          (scs_Put mem_manager True ''foo'' (VString ''baz'') (world (store_fails state_session))))
     = ([], Time_zero, Some store_error) \<and>
   last (calls (Put (New mem_manager) ''foo'' (VString ''baz'') (store_fails state_session)))
     = Call_WriteSessionCookie True (Writer state_session) [] Time_zero \<and>
   Header_Values (Writer (Put (New mem_manager) ''foo'' (VString ''baz'') (store_fails state_session)))
      ''Set-Cookie'' = [''session=; Max-Age=0''] \<and>
   fst (scs_Commit mem_manager True
          (scs_Remove mem_manager True ''foo'' (world (store_fails state_session))))
     = ([], Time_zero, Some store_error) \<and>
   Header_Values (Writer (Remove (New mem_manager) ''foo'' (store_fails state_session)))
      ''Set-Cookie'' = [''session=; Max-Age=0''] \<and>
   fst (scs_Commit mem_manager True
          (scs_RememberMe mem_manager True True (world (store_fails state_session))))
     = ([], Time_zero, Some store_error) \<and>
   Header_Values (Writer (RememberMe (New mem_manager) True (store_fails state_session)))
      ''Set-Cookie'' = [''session=; Max-Age=0''] \<and>
   fst (scs_Commit mem_manager True
          (snd (scs_GetString mem_manager True ''foo'' (world (store_fails state_session)))))
     = ([], Time_zero, Some store_error) \<and>
   fst (GetString (New mem_manager) ''foo'' (store_fails state_session)) = ''bar'' \<and>
   Header_Values (Writer (snd (GetString (New mem_manager) ''foo'' (store_fails state_session))))
      ''Set-Cookie'' = [''session=; Max-Age=0'']"
  using failed_commit_cookie_write [where ga = "New mem_manager" and s = "store_fails state_session"
      and key = "''foo''" and val = "VString ''baz''" and b = True
      and ?tok1.0 = "[]" and ?exp1.0 = Time_zero and ?e1.0 = store_error
      and ?tok2.0 = "[]" and ?exp2.0 = Time_zero and ?e2.0 = store_error
      and ?tok3.0 = "[]" and ?exp3.0 = Time_zero and ?e3.0 = store_error
      and ?tok4.0 = "[]" and ?exp4.0 = Time_zero and ?e4.0 = store_error]
  by (simp add: mem_defs store_fails_def state_session_def Let_def Header_Values_def GetString_unfold)

section \<open>Renewing the token keeps the values\<close>

text \<open>
  C9. With the session manager modelled from the spec, in any well-formed session state:
  after \<open>Put\<close> of a value under a key and a \<open>RenewToken\<close> that returned no error, \<open>Get\<close>
  of that key in the same request returns the value that was put, and the session has a
  new token: one that is not empty and is neither the token under which \<open>Put\<close> committed
  nor the token the request started with. While the store works, the cookie that
  \<open>RenewToken\<close> wrote carries this new token, the store holds the session's values, the
  value that was put among them, under the new token, and holds nothing any more under
  the token of before the renewal.
\<close>

theorem RenewToken_keeps_Put_value:
  fixes s :: "(bool, val, mem_world) state" and key :: string and val :: val
  defines "ga \<equiv> New mem_manager"
  defines "s1 \<equiv> Put ga key val s"
  defines "s2 \<equiv> snd (RenewToken ga s1)"
  assumes "world_ok (world s)"
    and "fst (RenewToken ga s1) = None"
  shows "fst (Get ga key s2) = val \<and>
         session_token (world s2) \<noteq> [] \<and>
         session_token (world s2) \<noteq> session_token (world s1) \<and>
         session_token (world s2) \<noteq> session_token (world s) \<and>
         (\<not> store_down (world s) \<longrightarrow>
            last_cookie (calls s2) = Some (session_token (world s2), session_deadline (world s2)) \<and>
            map_of (store (world s2)) (session_token (world s2)) = Some (session_values (world s2)) \<and>
            map_of (session_values (world s2)) key = Some val \<and>
            map_of (store (world s2)) (session_token (world s1)) = None)"
proof -
  define c where "c = Context (Request s)"
  define w1 where "w1 = snd (mem_Commit c (mem_Put c key val (world s)))"
  define w2 where "w2 = snd (mem_Commit c (snd (mem_RenewToken c w1)))"
  have sm: "sm ga = mem_manager"
    by (simp add: ga_def New_def)
  have world1: "world s1 = w1" and ctx1: "Context (Request s1) = c" and writer1: "True"
    by (simp_all add: s1_def Put_unfold Let_def sm mem_manager_def mem_WriteSessionCookie_def
        w1_def c_def)
  from assms(5) have renew: "fst (mem_RenewToken c w1) = None"
    by (simp add: RenewToken_unfold Let_def sm mem_manager_def world1 ctx1 split: if_splits)
  have world2: "world s2 = w2" and ctx2: "Context (Request s2) = c"
    using renew
    by (simp_all add: s2_def RenewToken_unfold Let_def sm mem_manager_def
        mem_WriteSessionCookie_def world1 ctx1 w2_def)
  have cookie2: "last_cookie (calls s2)
      = Some (fst (fst (mem_Commit c (snd (mem_RenewToken c w1)))),
              fst (snd (fst (mem_Commit c (snd (mem_RenewToken c w1))))))"
    using renew
    by (simp add: s2_def RenewToken_unfold Let_def sm mem_manager_def world1 ctx1
        last_cookie_def)
  have ok1: "world_ok w1" and val1: "map_of (session_values w1) key = Some val"
    and down1: "store_down w1 = store_down (world s)" and mint1: "minted (world s) \<le> minted w1"
    unfolding w1_def using put_committed [OF assms(4)] by blast+
  from ok1 have tok1: "session_token w1 = [] \<or> token_minted (minted w1) (session_token w1)"
    by (simp add: world_ok_def)
  from assms(4) have tok0:
    "session_token (world s) = [] \<or> token_minted (minted (world s)) (session_token (world s))"
    by (simp add: world_ok_def)
  have token2: "session_token w2 = new_token (minted w1)"
    unfolding w2_def using renew by (rule renewed_token)
  have values2: "session_values w2 = session_values w1"
    unfolding w2_def by (rule renewed_values)
  have "fst (Get ga key s2) = (case map_of (session_values w2) key of Some v \<Rightarrow> v | None \<Rightarrow> VNil)"
    by (simp add: Get_unfold Let_def sm mem_manager_def mem_Get_def world2)
  then have get: "fst (Get ga key s2) = val"
    by (simp add: values2 val1)
  have new1: "session_token w2 \<noteq> session_token w1"
    using tok1 unfolding token2 by (metis new_token_not_empty token_minted_not_next)
  have new0: "session_token w2 \<noteq> session_token (world s)"
    using tok0 mint1 unfolding token2
    by (metis new_token_not_empty token_minted_mono token_minted_not_next)
  have up: "last_cookie (calls s2) = Some (session_token w2, session_deadline w2) \<and>
            map_of (store w2) (session_token w2) = Some (session_values w2) \<and>
            map_of (session_values w2) key = Some val \<and>
            map_of (store w2) (session_token w1) = None"
    if "\<not> store_down (world s)"
  proof -
    from that have "\<not> store_down w1" by (simp add: down1)
    from renewed_store [OF this tok1, of c, folded w2_def] show ?thesis
      by (simp add: cookie2 token2 values2 val1)
  qed
  show ?thesis
    using get new1 new0 up by (simp add: world2 world1 token2 new_token_not_empty)
qed

text \<open>
  In the handler of a returning client whose session has the token \<open>t\<close>: \<open>Put\<close> commits
  under \<open>t\<close>, \<open>RenewToken\<close> moves the session to \<open>tx\<close> and writes the cookie for \<open>tx\<close>,
  and \<open>Get\<close> returns the value that was put.
\<close>

theorem RenewToken_keeps_Put_value_witness:
  "world_ok (world state_session) \<and>
   fst (RenewToken (New mem_manager) (Put (New mem_manager) ''foo'' (VString ''baz'') state_session))
     = None \<and>
   fst (Get (New mem_manager) ''foo''
          (snd (RenewToken (New mem_manager)
                  (Put (New mem_manager) ''foo'' (VString ''baz'') state_session))))
     = VString ''baz'' \<and>
   session_token (world (Put (New mem_manager) ''foo'' (VString ''baz'') state_session)) = ''t'' \<and>
   session_token (world (snd (RenewToken (New mem_manager)
        (Put (New mem_manager) ''foo'' (VString ''baz'') state_session)))) = ''tx'' \<and>
   last_cookie (calls (snd (RenewToken (New mem_manager)
        (Put (New mem_manager) ''foo'' (VString ''baz'') state_session)))) = Some (''tx'', 3600) \<and>
   store (world (snd (RenewToken (New mem_manager)
        (Put (New mem_manager) ''foo'' (VString ''baz'') state_session))))
     = [(''tx'', [(''foo'', VString ''baz'')])]"
  using RenewToken_keeps_Put_value [where s = state_session and key = "''foo''"
      and val = "VString ''baz''"]
  by (simp add: mem_defs state_session_def Let_def RenewToken_unfold Put_unfold last_cookie_def
      world_ok_def token_minted_def)

end
